theory Spec2Isabelle
  imports Complex_Main
begin

section \<open>JavaScript strings\<close>

text \<open>
  Strings are byte lists. \<open>str_includes\<close> is \<^verbatim>\<open>String.prototype.includes\<close>
  (contiguous substring search, case sensitive); \<open>toLowerCase\<close> lowers the ASCII
  letters and leaves every other byte alone.
\<close>

fun startsWith :: "string \<Rightarrow> string \<Rightarrow> bool" where
  "startsWith s [] = True"
| "startsWith [] (p # ps) = False"
| "startsWith (c # cs) (p # ps) = (c = p \<and> startsWith cs ps)"

fun str_includes :: "string \<Rightarrow> string \<Rightarrow> bool" where
  "str_includes [] p = (p = [])"
| "str_includes (c # cs) p = (startsWith (c # cs) p \<or> str_includes cs p)"

definition toLowerChar :: "char \<Rightarrow> char" where
  "toLowerChar c =
     (case map_of (zip ''ABCDEFGHIJKLMNOPQRSTUVWXYZ'' ''abcdefghijklmnopqrstuvwxyz'') c of
        Some l \<Rightarrow> l
      | None \<Rightarrow> c)"

definition toLowerCase :: "string \<Rightarrow> string" where
  "toLowerCase s = map toLowerChar s"

text \<open>
  \<^verbatim>\<open>Number.prototype.toString()\<close> on an integer: decimal digits, with a
  leading minus sign for a negative number.
\<close>

fun showNat :: "nat \<Rightarrow> string" where
  "showNat n =
     (if n < 10 then [''0123456789'' ! n]
      else showNat (n div 10) @ [''0123456789'' ! (n mod 10)])"

definition showInt :: "int \<Rightarrow> string" where
  "showInt i = (if i < 0 then CHR ''-'' # showNat (nat (- i)) else showNat (nat i))"

section \<open>Types and interfaces\<close>

text \<open>
  The interfaces of \<^verbatim>\<open>integration-patterns.ts\<close>. A JavaScript \<^verbatim>\<open>number\<close>
  that counts or is a time in milliseconds is an \<open>int\<close>; the backoff parameters, which
  may be fractional, are \<open>real\<close>. A value of type \<^verbatim>\<open>any\<close> that the code only
  copies is an opaque serialised value.
\<close>

type_synonym json = string

record RetryConfig =
  maxAttempts :: int
  baseDelay :: real
  maxDelay :: real
  backoffMultiplier :: real
  jitter :: bool

record CircuitBreakerConfig =
  enabled :: bool
  failureThreshold :: int
  resetTimeout :: int
  monitoringWindow :: int

datatype ServiceType = salesforce | companycam | aws_secrets | external_api

record IntegrationEndpoint =
  ep_id :: string
  ep_name :: string
  serviceType :: ServiceType
  baseUrl :: string
  ep_timeout :: int
  retryConfig :: RetryConfig
  circuitBreakerConfig :: CircuitBreakerConfig

datatype ErrorType =
  timeout | connection_error | authentication_error | rate_limit | server_error
  | validation_error

datatype Severity = low | medium | high | critical

text \<open>
  The object a transport rejects with. The code reads \<^verbatim>\<open>error.message\<close>,
  \<^verbatim>\<open>error.response\<close> (with \<^verbatim>\<open>status\<close>, \<^verbatim>\<open>headers\<close>, \<^verbatim>\<open>data\<close>) and
  \<^verbatim>\<open>error.code\<close>; each may be undefined.
\<close>

record HttpResponse =
  status :: "int option"
  resp_headers :: "json option"
  resp_data :: "json option"

record JsError =
  err_message :: "string option"
  err_response :: "HttpResponse option"
  err_code :: "string option"

text \<open>
  What a \<^verbatim>\<open>throw\<close> carries: an error object, or \<^verbatim>\<open>undefined\<close> (the retry loop
  throws its never assigned \<^verbatim>\<open>lastError\<close> when the loop body did not run).
\<close>

datatype Thrown = ThrownUndefined | ThrownError JsError

datatype HttpMethod = GET | POST | PUT | PATCH | DELETE

record IntegrationRequest =
  req_method :: HttpMethod
  req_path :: string
  req_headers :: "(string \<rightharpoonup> string) option"
  req_body :: "json option"
  req_metadata :: "json option"

record RequestData =
  rd_method :: HttpMethod
  rd_path :: string
  rd_headers :: "string \<rightharpoonup> string"
  rd_metadata :: "json option"

record IntegrationError =
  ie_id :: string
  ie_endpointId :: string
  errorType :: ErrorType
  errorCode :: "string option"
  ie_message :: string
  requestData :: RequestData
  responseData :: "HttpResponse option"
  retryCount :: int
  occurredAt :: int
  resolved :: bool


datatype CircuitBreakerState = CLOSED | OPEN | HALF_OPEN

section \<open>The world outside the breaker\<close>

text \<open>
  Everything the code does besides computing is written into a trace, in order: the events
  it emits, the lines it logs and the delays it sleeps. The clock and the random number
  generator are oracles: the \<open>n\<close>-th reading of the clock (\<^verbatim>\<open>Date.now()\<close>,
  \<^verbatim>\<open>new Date()\<close>) is \<open>clock env n\<close>, whatever that is, and the \<open>n\<close>-th
  \<^verbatim>\<open>Math.random()\<close> is \<open>random env n\<close>. \<open>base36 env\<close> stands for
  \<^verbatim>\<open>x.toString(36).substr(2, 9)\<close>.
\<close>

datatype Event =
  StateChange string CircuitBreakerState
  | CircuitOpen string int
  | Reset string
  | CircuitBreakerStateChange string CircuitBreakerState
  | CircuitBreakerOpen string int
  | IntegrationErrorEvent IntegrationError
  | IntegrationAlert IntegrationError Severity
  | ConsoleLog string int int string real
  | Sleep real

record Env =
  clock :: "nat \<Rightarrow> int"
  random :: "nat \<Rightarrow> real"
  base36 :: "real \<Rightarrow> string"

text \<open>
  \<open>requestLog\<close> is the client's error log (a \<^verbatim>\<open>Map\<close> keyed by request id);
  \<open>local_attempts\<close> and \<open>local_lastError\<close> are the variables \<^verbatim>\<open>attempts\<close> and
  \<^verbatim>\<open>lastError\<close> of the running \<^verbatim>\<open>makeRequest\<close> call, which its closure
  \<^verbatim>\<open>operation\<close> updates; \<open>sent\<close> counts the invocations of the transport.
\<close>

record World =
  ticks :: nat
  rands :: nat
  sent :: nat
  trace :: "Event list"
  requestLog :: "string \<rightharpoonup> IntegrationError"
  local_attempts :: int
  local_lastError :: "IntegrationError option"

definition dateNow :: "Env \<Rightarrow> World \<Rightarrow> int \<times> World" where
  "dateNow env w = (clock env (ticks w), w\<lparr>ticks := Suc (ticks w)\<rparr>)"

definition mathRandom :: "Env \<Rightarrow> World \<Rightarrow> real \<times> World" where
  "mathRandom env w = (random env (rands w), w\<lparr>rands := Suc (rands w)\<rparr>)"

definition emit :: "Event \<Rightarrow> World \<Rightarrow> World" where
  "emit ev w = w\<lparr>trace := trace w @ [ev]\<rparr>"

text \<open>An operation is an asynchronous function: it resolves or rejects, and changes the world.\<close>

type_synonym Operation = "World \<Rightarrow> (Thrown + json) \<times> World"

section \<open>Error classifier\<close>

text \<open>
  \<^verbatim>\<open>response?.status\<close> is truthy when the response is there and its status is
  a number other than 0.
\<close>

definition truthyStatus :: "HttpResponse option \<Rightarrow> int option" where
  "truthyStatus response =
     (case response of
        None \<Rightarrow> None
      | Some r \<Rightarrow> (case status r of None \<Rightarrow> None | Some st \<Rightarrow> if st = 0 then None else Some st))"

definition lowerMessage :: "JsError \<Rightarrow> string" where
  "lowerMessage e = (case err_message e of None \<Rightarrow> [] | Some m \<Rightarrow> toLowerCase m)"

definition classifyMessage :: "string \<Rightarrow> ErrorType" where
  "classifyMessage errorMessage =
     (if str_includes errorMessage ''timeout'' \<or> str_includes errorMessage ''timed out''
      then timeout
      else if str_includes errorMessage ''connection'' \<or> str_includes errorMessage ''network''
              \<or> str_includes errorMessage ''econnreset''
              \<or> str_includes errorMessage ''econnrefused''
      then connection_error
      else if str_includes errorMessage ''auth'' \<or> str_includes errorMessage ''unauthorized''
              \<or> str_includes errorMessage ''forbidden''
      then authentication_error
      else if str_includes errorMessage ''rate limit''
              \<or> str_includes errorMessage ''too many requests''
      then rate_limit
      else server_error)"

definition classifyError :: "JsError \<Rightarrow> HttpResponse option \<Rightarrow> ErrorType" where
  "classifyError e response =
     (case truthyStatus response of
        Some st \<Rightarrow>
          if st = 401 \<or> st = 403 then authentication_error
          else if st = 429 then rate_limit
          else if 400 \<le> st \<and> st < 500 then validation_error
          else if 500 \<le> st then server_error
          else classifyMessage (lowerMessage e)
      | None \<Rightarrow> classifyMessage (lowerMessage e))"

fun getErrorSeverity :: "ErrorType \<Rightarrow> Severity" where
  "getErrorSeverity authentication_error = critical"
| "getErrorSeverity server_error = high"
| "getErrorSeverity timeout = medium"
| "getErrorSeverity connection_error = medium"
| "getErrorSeverity rate_limit = medium"
| "getErrorSeverity validation_error = low"

definition shouldAlert :: "ErrorType \<Rightarrow> int \<Rightarrow> bool" where
  "shouldAlert errorType' retryCount' =
     (if errorType' = authentication_error then True
      else if errorType' = server_error \<and> 1 \<le> retryCount' then True
      else if (errorType' = timeout \<or> errorType' = connection_error) \<and> 3 \<le> retryCount'
      then True
      else False)"

text \<open>
  The precedence as the specification words it, for comparison with \<open>classifyError\<close>:
  a response that carries a status code decides by the status alone (401 or 403, 429, another
  4xx, 5xx); the message is matched only when no such response is present; every remaining
  case is a server error.
\<close>

definition classify_spec :: "JsError \<Rightarrow> HttpResponse option \<Rightarrow> ErrorType" where
  "classify_spec e response =
     (case response of
        None \<Rightarrow> classifyMessage (lowerMessage e)
      | Some r \<Rightarrow>
          (case status r of
             None \<Rightarrow> classifyMessage (lowerMessage e)
           | Some st \<Rightarrow>
               if st = 401 \<or> st = 403 then authentication_error
               else if st = 429 then rate_limit
               else if 400 \<le> st \<and> st < 500 then validation_error
               else server_error))"

section \<open>Circuit breaker\<close>

text \<open>
  The object of class \<^verbatim>\<open>CircuitBreaker\<close>: its four private variables, its two
  read-only fields, and the handlers registered on it, as the events they emit in turn
  when an event reaches them.
\<close>

record CircuitBreaker =
  state :: CircuitBreakerState
  failures :: int
  lastFailureTime :: int
  successCount :: int
  config :: CircuitBreakerConfig
  endpointId :: string
  listeners :: "Event \<Rightarrow> Event list"

definition newCircuitBreaker :: "string \<Rightarrow> CircuitBreakerConfig \<Rightarrow> CircuitBreaker" where
  "newCircuitBreaker eid cfg =
     \<lparr>state = CLOSED, failures = 0, lastFailureTime = 0, successCount = 0,
      config = cfg, endpointId = eid, listeners = (\<lambda>ev. [])\<rparr>"

definition cb_emit :: "CircuitBreaker \<Rightarrow> Event \<Rightarrow> World \<Rightarrow> World" where
  "cb_emit b ev w = w\<lparr>trace := trace w @ ev # listeners b ev\<rparr>"

definition onSuccess :: "CircuitBreaker \<Rightarrow> World \<Rightarrow> CircuitBreaker \<times> World" where
  "onSuccess b w =
     (let b1 = b\<lparr>failures := 0, successCount := successCount b + 1\<rparr> in
      if state b1 = HALF_OPEN then
        if 3 \<le> successCount b1 then
          (let b2 = b1\<lparr>state := CLOSED, successCount := 0\<rparr>
           in (b2, cb_emit b2 (StateChange (endpointId b2) (state b2)) w))
        else (b1, w)
      else (b1, w))"

definition onFailure :: "Env \<Rightarrow> CircuitBreaker \<Rightarrow> World \<Rightarrow> CircuitBreaker \<times> World" where
  "onFailure env b w =
     (case dateNow env w of
        (now, w1) \<Rightarrow>
          (let b1 = b\<lparr>failures := failures b + 1, lastFailureTime := now, successCount := 0\<rparr> in
           if failureThreshold (config b1) \<le> failures b1 then
             (let b2 = b1\<lparr>state := OPEN\<rparr>;
                  w2 = cb_emit b2 (StateChange (endpointId b2) (state b2)) w1;
                  w3 = cb_emit b2 (CircuitOpen (endpointId b2) (failures b2)) w2
              in (b2, w3))
           else (b1, w1)))"

definition circuitOpenError :: "string \<Rightarrow> Thrown" where
  "circuitOpenError eid =
     ThrownError \<lparr>err_message = Some (''Circuit breaker is OPEN for endpoint '' @ eid),
                  err_response = None, err_code = None\<rparr>"

text \<open>The \<^verbatim>\<open>try\<close> block of \<^verbatim>\<open>execute\<close>: run the operation, then count its outcome.\<close>

definition cb_attempt ::
  "Env \<Rightarrow> Operation \<Rightarrow> CircuitBreaker \<Rightarrow> World \<Rightarrow> (Thrown + json) \<times> CircuitBreaker \<times> World" where
  "cb_attempt env operation b w =
     (case operation w of
        (Inr result, w1) \<Rightarrow> (case onSuccess b w1 of (b', w2) \<Rightarrow> (Inr result, b', w2))
      | (Inl err, w1) \<Rightarrow> (case onFailure env b w1 of (b', w2) \<Rightarrow> (Inl err, b', w2)))"

definition cb_execute ::
  "Env \<Rightarrow> Operation \<Rightarrow> CircuitBreaker \<Rightarrow> World \<Rightarrow> (Thrown + json) \<times> CircuitBreaker \<times> World" where
  "cb_execute env operation b w =
     (if \<not> enabled (config b) then (case operation w of (r, w1) \<Rightarrow> (r, b, w1))
      else if state b = OPEN then
        (case dateNow env w of
           (now, w1) \<Rightarrow>
             if now - lastFailureTime b < resetTimeout (config b)
             then (Inl (circuitOpenError (endpointId b)), b, w1)
             else
               (let b1 = b\<lparr>state := HALF_OPEN\<rparr>;
                    w2 = cb_emit b1 (StateChange (endpointId b1) (state b1)) w1
                in cb_attempt env operation b1 w2))
      else cb_attempt env operation b w)"

definition cb_reset :: "CircuitBreaker \<Rightarrow> World \<Rightarrow> CircuitBreaker \<times> World" where
  "cb_reset b w =
     (let b1 = b\<lparr>state := CLOSED, failures := 0, successCount := 0, lastFailureTime := 0\<rparr>
      in (b1, cb_emit b1 (Reset (endpointId b1)) w))"

text \<open>A sequence of calls of \<^verbatim>\<open>execute\<close> on one breaker, one after the other.\<close>

fun cb_run :: "Env \<Rightarrow> Operation list \<Rightarrow> CircuitBreaker \<Rightarrow> World \<Rightarrow> CircuitBreaker \<times> World" where
  "cb_run env [] b w = (b, w)"
| "cb_run env (operation # operations) b w =
     (case cb_execute env operation b w of (r, b', w') \<Rightarrow> cb_run env operations b' w')"

text \<open>
  The states a breaker created as \<open>b0\<close> can be in between two calls: the public methods
  that write its variables are \<^verbatim>\<open>execute\<close> and \<^verbatim>\<open>reset\<close>.
\<close>

inductive cb_reachable :: "Env \<Rightarrow> CircuitBreaker \<Rightarrow> CircuitBreaker \<Rightarrow> bool"
  for env :: Env and b0 :: CircuitBreaker where
  initial: "cb_reachable env b0 b0"
| execute: "cb_reachable env b0 b \<Longrightarrow> cb_execute env operation b w = (r, b', w')
            \<Longrightarrow> cb_reachable env b0 b'"
| reset: "cb_reachable env b0 b \<Longrightarrow> cb_reset b w = (b', w') \<Longrightarrow> cb_reachable env b0 b'"

text \<open>
  An operation whose outcome at its \<open>n\<close>-th invocation is \<open>f n\<close>; the counter
  \<open>sent\<close> counts its invocations. \<open>fails\<close> and \<open>succeeds\<close> say that an operation
  rejects, or resolves, whenever it is run.
\<close>

definition scripted :: "(nat \<Rightarrow> Thrown + json) \<Rightarrow> Operation" where
  "scripted f w = (f (sent w), w\<lparr>sent := Suc (sent w)\<rparr>)"

definition fails :: "Operation \<Rightarrow> bool" where
  "fails operation = (\<forall>w. isl (fst (operation w)))"

definition succeeds :: "Operation \<Rightarrow> bool" where
  "succeeds operation = (\<forall>w. \<not> isl (fst (operation w)))"

section \<open>Retry mechanism\<close>

text \<open>
  \<^verbatim>\<open>error.message.includes(...)\<close> raises a \<^verbatim>\<open>TypeError\<close> when the thrown value
  is undefined or has no message; the exception leaves \<^verbatim>\<open>execute\<close> from inside its
  \<^verbatim>\<open>catch\<close> block.
\<close>

definition typeError :: "string \<Rightarrow> Thrown" where
  "typeError m = ThrownError \<lparr>err_message = Some m, err_response = None, err_code = None\<rparr>"

definition messageOf :: "Thrown \<Rightarrow> string option" where
  "messageOf t = (case t of ThrownUndefined \<Rightarrow> None | ThrownError e \<Rightarrow> err_message e)"

definition shouldRetry :: "Thrown \<Rightarrow> Thrown + bool" where
  "shouldRetry err =
     (case messageOf err of
        None \<Rightarrow> Inl (typeError ''Cannot read properties of undefined (reading includes)'')
      | Some m \<Rightarrow>
          if str_includes m ''401'' \<or> str_includes m ''authentication'' then Inr False
          else if str_includes m ''400'' \<or> str_includes m ''validation'' then Inr False
          else Inr True)"

text \<open>
  \<^verbatim>\<open>Math.pow\<close> is the integer power \<open>powi\<close>; the loop calls \<open>calculateDelay\<close>
  with \<open>attempt \<ge> 1\<close> only.
\<close>

definition calculateDelay :: "Env \<Rightarrow> RetryConfig \<Rightarrow> int \<Rightarrow> World \<Rightarrow> real \<times> World" where
  "calculateDelay env cfg attempt w =
     (let delay = baseDelay cfg * backoffMultiplier cfg powi (attempt - 1);
          delay = min delay (maxDelay cfg)
      in if jitter cfg then
           (let jitterRange = delay * 0.25 in
            case mathRandom env w of
              (r, w1) \<Rightarrow> (max (delay + (r - 0.5) * 2 * jitterRange) 0, w1))
         else (max delay 0, w))"

definition sleep :: "real \<Rightarrow> World \<Rightarrow> World" where
  "sleep ms w = emit (Sleep ms) w"

text \<open>
  \<^verbatim>\<open>RetryHandler.execute\<close>. The context is the pair of \<^verbatim>\<open>endpointId\<close> and
  \<^verbatim>\<open>requestId\<close>; \<open>attempt\<close> and \<open>lastError\<close> are the loop's variables, 0 and
  undefined at the start.
\<close>

function retry_loop ::
  "Env \<Rightarrow> RetryConfig \<Rightarrow> Operation \<Rightarrow> string \<times> string \<Rightarrow> int \<Rightarrow> Thrown \<Rightarrow> World
     \<Rightarrow> (Thrown + json) \<times> World" where
  "retry_loop env cfg operation ctx attempt lastError w =
     (if attempt < maxAttempts cfg then
        (case operation w of
           (Inr result, w1) \<Rightarrow> (Inr result, w1)
         | (Inl err, w1) \<Rightarrow>
             (case shouldRetry err of
                Inl te \<Rightarrow> (Inl te, w1)
              | Inr retry \<Rightarrow>
                  if \<not> retry then (Inl err, w1)
                  else if attempt + 1 < maxAttempts cfg then
                    (case calculateDelay env cfg (attempt + 1) w1 of
                       (delay, w2) \<Rightarrow>
                         retry_loop env cfg operation ctx (attempt + 1) err
                           (sleep delay
                              (emit (ConsoleLog (snd ctx) (attempt + 1) (maxAttempts cfg)
                                       (fst ctx) delay) w2)))
                  else retry_loop env cfg operation ctx (attempt + 1) err w1))
      else (Inl lastError, w))"
  by pat_completeness auto
termination
  by (relation "measure (\<lambda>(env, cfg, operation, ctx, attempt, lastError, w).
                  nat (maxAttempts cfg - attempt))") auto

declare retry_loop.simps [simp del]

definition retry_execute ::
  "Env \<Rightarrow> RetryConfig \<Rightarrow> Operation \<Rightarrow> string \<times> string \<Rightarrow> World \<Rightarrow> (Thrown + json) \<times> World" where
  "retry_execute env cfg operation ctx w =
     retry_loop env cfg operation ctx 0 ThrownUndefined w"

section \<open>Integration client\<close>

definition truthyString :: "string option \<Rightarrow> bool" where
  "truthyString v = (case v of None \<Rightarrow> False | Some s \<Rightarrow> s \<noteq> [])"

definition sensitiveHeaders :: "string list" where
  "sensitiveHeaders = [''authorization'', ''x-api-key'', ''cookie'']"

definition sanitizeHeaders :: "(string \<rightharpoonup> string) \<Rightarrow> (string \<rightharpoonup> string)" where
  "sanitizeHeaders hs =
     fold (\<lambda>header sanitized.
             if truthyString (sanitized header)
             then sanitized(header \<mapsto> ''[REDACTED]'')
             else sanitized)
          sensitiveHeaders hs"

text \<open>
  \<open>createIntegrationError\<close> reads the clock once, for \<^verbatim>\<open>occurredAt\<close>.
  \<^verbatim>\<open>a || b\<close> is \<open>b\<close> when \<open>a\<close> is undefined or the empty string.
\<close>

definition errorCodeOf :: "JsError \<Rightarrow> string option" where
  "errorCodeOf e =
     (case err_response e of
        None \<Rightarrow> err_code e
      | Some r \<Rightarrow> (case status r of None \<Rightarrow> err_code e | Some st \<Rightarrow> Some (showInt st)))"

definition createIntegrationError ::
  "Env \<Rightarrow> IntegrationEndpoint \<Rightarrow> JsError \<Rightarrow> IntegrationRequest \<Rightarrow> string \<Rightarrow> int \<Rightarrow> World
     \<Rightarrow> IntegrationError \<times> World" where
  "createIntegrationError env ep e request requestId retryCount' w =
     (case dateNow env w of
        (now, w1) \<Rightarrow>
          (\<lparr>ie_id = requestId,
            ie_endpointId = ep_id ep,
            errorType = classifyError e (err_response e),
            errorCode = errorCodeOf e,
            ie_message =
              (case err_message e of
                 None \<Rightarrow> ''Unknown error''
               | Some m \<Rightarrow> if m = [] then ''Unknown error'' else m),
            requestData =
              \<lparr>rd_method = req_method request,
               rd_path = req_path request,
               rd_headers = sanitizeHeaders
                  (case req_headers request of None \<Rightarrow> Map.empty | Some hs \<Rightarrow> hs),
               rd_metadata = req_metadata request\<rparr>,
            responseData = err_response e,
            retryCount = retryCount',
            occurredAt = now,
            resolved = False\<rparr>, w1))"

definition logError :: "IntegrationError \<Rightarrow> World \<Rightarrow> World" where
  "logError ie w =
     (let w1 = w\<lparr>requestLog := (requestLog w)(ie_id ie \<mapsto> ie)\<rparr>;
          w2 = emit (IntegrationErrorEvent ie) w1
      in if shouldAlert (errorType ie) (retryCount ie)
         then emit (IntegrationAlert ie (getErrorSeverity (errorType ie))) w2
         else w2)"


text \<open>
  The abstract method \<^verbatim>\<open>executeRequest\<close> is a parameter: the outcome of its
  \<open>n\<close>-th invocation, for a request and a request id, is \<open>transport request requestId n\<close>,
  a response or the error object it rejects with. A transport rejects with an object, on
  which \<^verbatim>\<open>error.response\<close> can be read; the handlers that receive the events of the
  breaker and of the client return without an exception.
\<close>

type_synonym Transport = "IntegrationRequest \<Rightarrow> string \<Rightarrow> nat \<Rightarrow> JsError + json"

definition executeRequest ::
  "Transport \<Rightarrow> IntegrationRequest \<Rightarrow> string \<Rightarrow> World \<Rightarrow> (JsError + json) \<times> World" where
  "executeRequest transport request requestId w =
     (transport request requestId (sent w), w\<lparr>sent := Suc (sent w)\<rparr>)"

text \<open>The closure \<^verbatim>\<open>operation\<close> of \<^verbatim>\<open>makeRequest\<close>.\<close>

definition operation ::
  "Env \<Rightarrow> IntegrationEndpoint \<Rightarrow> Transport \<Rightarrow> IntegrationRequest \<Rightarrow> string \<Rightarrow> Operation" where
  "operation env ep transport request requestId w =
     (let w1 = w\<lparr>local_attempts := local_attempts w + 1\<rparr> in
      case executeRequest transport request requestId w1 of
        (Inr response, w2) \<Rightarrow> (Inr response, w2)
      | (Inl e, w2) \<Rightarrow>
          (case createIntegrationError env ep e request requestId (local_attempts w2 - 1) w2 of
             (integrationError, w3) \<Rightarrow>
               (Inl (ThrownError e),
                logError integrationError (w3\<lparr>local_lastError := Some integrationError\<rparr>))))"


text \<open>
  The constructor of \<^verbatim>\<open>IntegrationClient\<close> creates the breaker from the endpoint and
  registers two handlers on it, which emit the breaker's events again under the client's
  names.
\<close>

definition forwardEvents :: "Event \<Rightarrow> Event list" where
  "forwardEvents ev =
     (case ev of
        StateChange eid st \<Rightarrow> [CircuitBreakerStateChange eid st]
      | CircuitOpen eid n \<Rightarrow> [CircuitBreakerOpen eid n]
      | _ \<Rightarrow> [])"

definition newClientBreaker :: "IntegrationEndpoint \<Rightarrow> CircuitBreaker" where
  "newClientBreaker ep =
     (newCircuitBreaker (ep_id ep) (circuitBreakerConfig ep))\<lparr>listeners := forwardEvents\<rparr>"

section \<open>Observations and example inputs\<close>

text \<open>The delays slept, in order, and the integration errors emitted, in order.\<close>

fun sleeps :: "Event list \<Rightarrow> real list" where
  "sleeps [] = []"
| "sleeps (Sleep ms # evs) = ms # sleeps evs"
| "sleeps (ev # evs) = sleeps evs"





text \<open>An outcome after which the retry loop goes on: a rejection that \<open>shouldRetry\<close> accepts.\<close>

definition retryableFailure :: "Thrown + json \<Rightarrow> bool" where
  "retryableFailure r = (case r of Inl err \<Rightarrow> shouldRetry err = Inr True | Inr v \<Rightarrow> False)"

text \<open>The delay the specification names for the \<open>i\<close>-th failed attempt.\<close>

definition backoff :: "RetryConfig \<Rightarrow> int \<Rightarrow> real" where
  "backoff cfg i = min (baseDelay cfg * backoffMultiplier cfg powi (i - 1)) (maxDelay cfg)"

text \<open>
  Inputs for the examples: a clock that advances 100 seconds between two readings and one
  that advances one second, an empty
  world, a breaker that opens at two failures and stays open for a minute, the default retry
  configuration without jitter, a request with a credential and one whose credential is the
  empty string, operations that always reject
  or always resolve, a transport that always fails and one that fails once.
\<close>

definition demoEnv :: Env where
  "demoEnv = \<lparr>clock = (\<lambda>n. 100000 * int n), random = (\<lambda>n. 0), base36 = (\<lambda>r. ''k3x9q2m1z'')\<rparr>"


definition demoWorld :: World where
  "demoWorld = \<lparr>ticks = 0, rands = 0, sent = 0, trace = [], requestLog = Map.empty,
                 local_attempts = 0, local_lastError = None\<rparr>"

definition demoBreakerConfig :: CircuitBreakerConfig where
  "demoBreakerConfig =
     \<lparr>enabled = True, failureThreshold = 2, resetTimeout = 60000, monitoringWindow = 300000\<rparr>"

definition demoRetryConfig :: RetryConfig where
  "demoRetryConfig =
     \<lparr>maxAttempts = 3, baseDelay = 1000, maxDelay = 30000, backoffMultiplier = 2,
      jitter = False\<rparr>"

definition demoEndpoint :: IntegrationEndpoint where
  "demoEndpoint =
     \<lparr>ep_id = ''crm'', ep_name = ''CRM'', serviceType = salesforce,
      baseUrl = ''https://crm.example'', ep_timeout = 5000,
      retryConfig = demoRetryConfig, circuitBreakerConfig = demoBreakerConfig\<rparr>"



definition httpError :: "string \<Rightarrow> JsError" where
  "httpError m = \<lparr>err_message = Some m, err_response = None, err_code = None\<rparr>"

definition rejecting :: Operation where
  "rejecting = scripted (\<lambda>n. Inl (ThrownError (httpError ''HTTP 500: Internal Server Error'')))"



definition resolving :: Operation where
  "resolving = scripted (\<lambda>n. Inr ''{}'')"

section \<open>Verification: error classifier\<close>

text \<open>
  C8, as the source has it. A status of 401 or 403 is an authentication error, 429 a rate
  limit, any other status from 400 to 499 a validation error, and a status of 500 or more a
  server error. In every other case, which is when there is no response, when it has no
  status or the status 0, and also when the status is below 400, the lower-cased message
  decides, in this order: timeout terms, connection and network terms, authentication terms,
  rate limit terms; a message with none of them is a server error.
\<close>

theorem classifyError_precedence:
  "(\<forall>st. truthyStatus response = Some st \<longrightarrow>
       (st = 401 \<or> st = 403 \<longrightarrow> classifyError e response = authentication_error)
     \<and> (st = 429 \<longrightarrow> classifyError e response = rate_limit)
     \<and> (400 \<le> st \<and> st < 500 \<and> st \<noteq> 401 \<and> st \<noteq> 403 \<and> st \<noteq> 429
          \<longrightarrow> classifyError e response = validation_error)
     \<and> (500 \<le> st \<longrightarrow> classifyError e response = server_error))
   \<and> (truthyStatus response = None \<or> (\<exists>st. truthyStatus response = Some st \<and> st < 400) \<longrightarrow>
        (let m = lowerMessage e in
         classifyError e response =
           (if str_includes m ''timeout'' \<or> str_includes m ''timed out'' then timeout
            else if str_includes m ''connection'' \<or> str_includes m ''network''
                    \<or> str_includes m ''econnreset'' \<or> str_includes m ''econnrefused''
            then connection_error
            else if str_includes m ''auth'' \<or> str_includes m ''unauthorized''
                    \<or> str_includes m ''forbidden''
            then authentication_error
            else if str_includes m ''rate limit'' \<or> str_includes m ''too many requests''
            then rate_limit
            else server_error)))"
  by (auto simp: classifyError_def classifyMessage_def Let_def)

theorem classifyError_precedence_witness:
  "truthyStatus (Some \<lparr>status = Some 404, resp_headers = None, resp_data = None\<rparr>) = Some 404
   \<and> classifyError \<lparr>err_message = Some ''Connection lost'', err_response = None, err_code = None\<rparr>
        (Some \<lparr>status = Some 404, resp_headers = None, resp_data = None\<rparr>) = validation_error
   \<and> truthyStatus None = None
   \<and> classifyError \<lparr>err_message = Some ''Connection lost'', err_response = None, err_code = None\<rparr>
        None = connection_error"
  using classifyError_precedence
          [of "Some \<lparr>status = Some 404, resp_headers = None, resp_data = None\<rparr>"
              "\<lparr>err_message = Some ''Connection lost'', err_response = None, err_code = None\<rparr>"]
        classifyError_precedence
          [of None
              "\<lparr>err_message = Some ''Connection lost'', err_response = None, err_code = None\<rparr>"]
  by (simp add: truthyStatus_def lowerMessage_def toLowerCase_def toLowerChar_def)

text \<open>
  The claim as worded fails where a response carries a status below 400 and the message has
  a known term: the source goes on to the message, the wording leaves a server error.
\<close>

theorem classifyError_precedence_counterexample:
  "classifyError \<lparr>err_message = Some ''Gateway Timeout'', err_response = None, err_code = None\<rparr>
      (Some \<lparr>status = Some 302, resp_headers = None, resp_data = None\<rparr>) = timeout
   \<and> classify_spec \<lparr>err_message = Some ''Gateway Timeout'', err_response = None, err_code = None\<rparr>
      (Some \<lparr>status = Some 302, resp_headers = None, resp_data = None\<rparr>) = server_error"
  by (simp add: classifyError_def classify_spec_def truthyStatus_def classifyMessage_def
        lowerMessage_def toLowerCase_def toLowerChar_def)

section \<open>Verification: circuit breaker\<close>

lemma cb_run_append:
  "cb_run env (xs @ ys) b w = (case cb_run env xs b w of (b', w') \<Rightarrow> cb_run env ys b' w')"
  by (induction xs arbitrary: b w) (auto split: prod.splits)

lemma cb_attempt_fails:
  assumes "fails op"
  shows "fst (snd (cb_attempt env op b w)) =
           b\<lparr>failures := failures b + 1,
             lastFailureTime := clock env (ticks (snd (op w))),
             successCount := 0,
             state := (if failureThreshold (config b) \<le> failures b + 1 then OPEN else state b)\<rparr>"
proof -
  obtain r w1 where op: "op w = (r, w1)" by (cases "op w")
  with assms obtain e where "r = Inl e" by (cases r) (auto simp: fails_def dest: spec[of _ w])
  with op show ?thesis
    by (simp add: cb_attempt_def onFailure_def dateNow_def Let_def split: prod.splits)
qed

lemma cb_attempt_succeeds:
  assumes "succeeds op"
  shows "fst (snd (cb_attempt env op b w)) =
           (if state b = HALF_OPEN \<and> 3 \<le> successCount b + 1
            then b\<lparr>failures := 0, successCount := 0, state := CLOSED\<rparr>
            else b\<lparr>failures := 0, successCount := successCount b + 1\<rparr>)"
proof -
  obtain r w1 where op: "op w = (r, w1)" by (cases "op w")
  with assms obtain v where "r = Inr v" by (cases r) (auto simp: succeeds_def dest: spec[of _ w])
  with op show ?thesis
    by (simp add: cb_attempt_def onSuccess_def Let_def split: prod.splits)
qed

lemma cb_execute_not_open:
  "enabled (config b) \<Longrightarrow> state b \<noteq> OPEN \<Longrightarrow> cb_execute env op b w = cb_attempt env op b w"
  by (simp add: cb_execute_def)


text \<open>Failing calls below the threshold leave a closed breaker closed, and are counted.\<close>

lemma cb_run_fails_closed:
  assumes "enabled (config b)" "state b = CLOSED"
    and "\<forall>op\<in>set ops. fails op"
    and "failures b + int (length ops) < failureThreshold (config b)"
  shows "state (fst (cb_run env ops b w)) = CLOSED
       \<and> failures (fst (cb_run env ops b w)) = failures b + int (length ops)
       \<and> config (fst (cb_run env ops b w)) = config b"
  using assms
proof (induction ops arbitrary: b w)
  case Nil
  then show ?case by simp
next
  case (Cons op ops)
  obtain r b' w' where ex: "cb_execute env op b w = (r, b', w')"
    by (cases "cb_execute env op b w")
  have att: "cb_execute env op b w = cb_attempt env op b w"
    using Cons.prems by (simp add: cb_execute_not_open)
  have b': "b' = fst (snd (cb_attempt env op b w))" using ex att by simp
  have "fails op" using Cons.prems by simp
  from cb_attempt_fails[OF this, of env b w] b' Cons.prems
  have props: "state b' = CLOSED" "failures b' = failures b + 1" "config b' = config b"
    by auto
  with Cons.prems have "failures b' + int (length ops) < failureThreshold (config b')"
    by simp
  with Cons.IH[of b' w'] props Cons.prems
  show ?case using ex by simp
qed

text \<open>
  What holds of a breaker between two calls: it keeps its configuration; while it is open
  no success is counted and the failures have reached the threshold; while it is half open
  fewer than three successes are counted.
\<close>

lemma cb_step_inv:
  assumes "cb_execute env op b w = (r, b', w')"
    and "0 \<le> successCount b"
    and "state b = OPEN \<longrightarrow> successCount b = 0 \<and> failureThreshold (config b) \<le> failures b"
    and "state b = HALF_OPEN \<longrightarrow> successCount b < 3 \<and> enabled (config b)"
  shows "config b' = config b \<and> 0 \<le> successCount b'
       \<and> (state b' = OPEN \<longrightarrow> successCount b' = 0 \<and> failureThreshold (config b') \<le> failures b')
       \<and> (state b' = HALF_OPEN \<longrightarrow> successCount b' < 3 \<and> enabled (config b'))"
  using assms
  by (auto simp: cb_execute_def cb_attempt_def onSuccess_def onFailure_def dateNow_def Let_def
           split: if_splits prod.splits sum.splits)

lemma cb_reachable_inv:
  assumes "cb_reachable env b0 b"
    and "state b0 = CLOSED" and "successCount b0 = 0"
  shows "config b = config b0 \<and> 0 \<le> successCount b
       \<and> (state b = OPEN \<longrightarrow> successCount b = 0 \<and> failureThreshold (config b) \<le> failures b)
       \<and> (state b = HALF_OPEN \<longrightarrow> successCount b < 3 \<and> enabled (config b))"
  using assms
proof (induction rule: cb_reachable.induct)
  case initial
  then show ?case by simp
next
  case (execute b op w r b' w')
  from execute.IH[OF execute.prems]
  have i: "config b = config b0" "0 \<le> successCount b"
    "state b = OPEN \<longrightarrow> successCount b = 0 \<and> failureThreshold (config b) \<le> failures b"
    "state b = HALF_OPEN \<longrightarrow> successCount b < 3 \<and> enabled (config b)"
    by auto
  from cb_step_inv[OF execute.hyps(2) i(2) i(3) i(4)] i(1)
  show ?case by auto
next
  case (reset b w b' w')
  then show ?case by (auto simp: cb_reset_def Let_def)
qed

lemma cb_run_reachable:
  "cb_reachable env b0 b \<Longrightarrow> cb_reachable env b0 (fst (cb_run env ops b w))"
proof (induction ops arbitrary: b w)
  case Nil
  then show ?case by simp
next
  case (Cons op ops)
  obtain r b' w' where ex: "cb_execute env op b w = (r, b', w')"
    by (cases "cb_execute env op b w")
  then have "cb_reachable env b0 b'" using Cons.prems by (rule cb_reachable.execute[rotated])
  from Cons.IH[OF this, of w'] ex show ?case by simp
qed

lemma cb_run_succeeds_half_open:
  assumes "enabled (config b)" "state b = HALF_OPEN" "succeeds op"
  shows "cb_run env (op # ops) b w =
         cb_run env ops
           (if 2 \<le> successCount b
            then b\<lparr>failures := 0, successCount := 0, state := CLOSED\<rparr>
            else b\<lparr>failures := 0, successCount := successCount b + 1\<rparr>)
           (snd (snd (cb_execute env op b w)))"
proof -
  obtain r b' w' where ex: "cb_execute env op b w = (r, b', w')"
    by (cases "cb_execute env op b w")
  have "b' = fst (snd (cb_execute env op b w))" using ex by simp
  also have "cb_execute env op b w = cb_attempt env op b w"
    using assms by (simp add: cb_execute_not_open)
  finally have "b' = fst (snd (cb_attempt env op b w))" .
  then have "b' = (if 2 \<le> successCount b
            then b\<lparr>failures := 0, successCount := 0, state := CLOSED\<rparr>
            else b\<lparr>failures := 0, successCount := successCount b + 1\<rparr>)"
    using cb_attempt_succeeds[OF assms(3), of env b w] assms(2) by simp
  then show ?thesis using ex by simp
qed

text \<open>
  C3. A call of \<^verbatim>\<open>execute\<close> on an enabled breaker that is open. While the time
  read from the clock less \<open>lastFailureTime\<close> is below \<open>resetTimeout\<close>, the call
  rejects with the circuit-open error and leaves the breaker as it is; the result does not
  depend on the operation, and a counting operation is not invoked. Otherwise the breaker is
  set to half open and the state change is emitted first, then the operation is run once,
  on that world, and its outcome is counted by \<open>onSuccess\<close> or \<open>onFailure\<close>; a
  counting operation is invoked exactly once.
\<close>

theorem execute_when_open:
  assumes "enabled (config b)" and "state b = OPEN"
  shows "(clock env (ticks w) - lastFailureTime b < resetTimeout (config b) \<longrightarrow>
            cb_execute env op b w =
              (Inl (circuitOpenError (endpointId b)), b, w\<lparr>ticks := Suc (ticks w)\<rparr>)
          \<and> sent (snd (snd (cb_execute env (scripted f) b w))) = sent w)
       \<and> (\<not> clock env (ticks w) - lastFailureTime b < resetTimeout (config b) \<longrightarrow>
            cb_execute env op b w =
              (let b1 = b\<lparr>state := HALF_OPEN\<rparr>;
                   w1 = cb_emit b1 (StateChange (endpointId b1) HALF_OPEN)
                          (w\<lparr>ticks := Suc (ticks w)\<rparr>)
               in case op w1 of
                    (Inr result, w2) \<Rightarrow>
                      (Inr result, fst (onSuccess b1 w2), snd (onSuccess b1 w2))
                  | (Inl err, w2) \<Rightarrow>
                      (Inl err, fst (onFailure env b1 w2), snd (onFailure env b1 w2)))
          \<and> sent (snd (snd (cb_execute env (scripted f) b w))) = Suc (sent w))"
  using assms
  by (auto simp: cb_execute_def cb_attempt_def dateNow_def Let_def cb_emit_def scripted_def
        onSuccess_def onFailure_def split: prod.splits sum.splits)

theorem execute_when_open_witness:
  "enabled (config ((newCircuitBreaker ''crm'' demoBreakerConfig)
                      \<lparr>state := OPEN, failures := 2, lastFailureTime := 100000\<rparr>))
   \<and> fst (cb_execute demoEnv rejecting
        ((newCircuitBreaker ''crm'' demoBreakerConfig)
           \<lparr>state := OPEN, failures := 2, lastFailureTime := 100000\<rparr>)
        (demoWorld\<lparr>ticks := 1\<rparr>)) = Inl (circuitOpenError ''crm'')
   \<and> sent (snd (snd (cb_execute demoEnv resolving
        ((newCircuitBreaker ''crm'' demoBreakerConfig)
           \<lparr>state := OPEN, failures := 2, lastFailureTime := 100000\<rparr>)
        (demoWorld\<lparr>ticks := 1\<rparr>)))) = 0
   \<and> sent (snd (snd (cb_execute demoEnv resolving
        ((newCircuitBreaker ''crm'' demoBreakerConfig)
           \<lparr>state := OPEN, failures := 2, lastFailureTime := 100000\<rparr>)
        (demoWorld\<lparr>ticks := 2\<rparr>)))) = 1
   \<and> state (fst (snd (cb_execute demoEnv resolving
        ((newCircuitBreaker ''crm'' demoBreakerConfig)
           \<lparr>state := OPEN, failures := 2, lastFailureTime := 100000\<rparr>)
        (demoWorld\<lparr>ticks := 2\<rparr>)))) = HALF_OPEN"
  using execute_when_open
          [where b = "(newCircuitBreaker ''crm'' demoBreakerConfig)
                        \<lparr>state := OPEN, failures := 2, lastFailureTime := 100000\<rparr>"
             and env = demoEnv and w = "demoWorld\<lparr>ticks := 1\<rparr>" and op = rejecting
             and f = "\<lambda>n. Inr ''{}''"]
        execute_when_open
          [where b = "(newCircuitBreaker ''crm'' demoBreakerConfig)
                        \<lparr>state := OPEN, failures := 2, lastFailureTime := 100000\<rparr>"
             and env = demoEnv and w = "demoWorld\<lparr>ticks := 2\<rparr>" and op = resolving
             and f = "\<lambda>n. Inr ''{}''"]
  by (simp add: newCircuitBreaker_def demoBreakerConfig_def demoEnv_def demoWorld_def
        resolving_def scripted_def onSuccess_def cb_emit_def Let_def)

text \<open>
  C4. An enabled breaker with a failure threshold \<open>F \<ge> 1\<close>, as the constructor
  leaves it, is open after \<open>F\<close> calls in a row whose operations fail, and its
  \<open>lastFailureTime\<close> is the clock reading taken when the last of these operations had
  failed.
\<close>

theorem threshold_failures_open:
  assumes "enabled cfg" and "1 \<le> failureThreshold cfg"
    and "length ops = nat (failureThreshold cfg)"
    and "\<forall>op\<in>set ops. fails op"
  shows "state (fst (cb_run env ops ((newCircuitBreaker eid cfg)\<lparr>listeners := ls\<rparr>) w)) = OPEN
       \<and> lastFailureTime (fst (cb_run env ops ((newCircuitBreaker eid cfg)\<lparr>listeners := ls\<rparr>) w)) =
           clock env (ticks (snd (last ops
              (snd (cb_run env (butlast ops) ((newCircuitBreaker eid cfg)\<lparr>listeners := ls\<rparr>) w)))))"
proof -
  let ?init = "(newCircuitBreaker eid cfg)\<lparr>listeners := ls\<rparr>"
  have ne: "ops \<noteq> []" using assms by auto
  then have split: "ops = butlast ops @ [last ops]" by simp
  obtain b1 w1 where r1: "cb_run env (butlast ops) ?init w = (b1, w1)"
    by (cases "cb_run env (butlast ops) ?init w")
  have pre: "enabled (config ?init)" "state ?init = CLOSED"
    "\<forall>op\<in>set (butlast ops). fails op"
    "failures ?init + int (length (butlast ops)) < failureThreshold (config ?init)"
    using assms ne by (auto simp: newCircuitBreaker_def dest: in_set_butlastD)
  from cb_run_fails_closed[OF pre, of env w] r1
  have b1: "state b1 = CLOSED" "failures b1 = int (length (butlast ops))" "config b1 = cfg"
    by (auto simp: newCircuitBreaker_def)
  have fl: "fails (last ops)" using assms ne by simp
  have "cb_run env ops ?init w = cb_run env [last ops] b1 w1"
    using r1 by (subst split) (simp add: cb_run_append)
  then have fin: "fst (cb_run env ops ?init w) = fst (snd (cb_attempt env (last ops) b1 w1))"
    using b1 assms by (simp add: cb_execute_not_open split: prod.splits)
  have "failureThreshold cfg \<le> failures b1 + 1" using b1 assms ne by simp
  then show ?thesis
    using fin cb_attempt_fails[OF fl, of env b1 w1] b1 r1 by simp
qed

theorem threshold_failures_open_witness:
  "enabled demoBreakerConfig \<and> 1 \<le> failureThreshold demoBreakerConfig
   \<and> length [rejecting, rejecting] = nat (failureThreshold demoBreakerConfig)
   \<and> fails rejecting
   \<and> state (fst (cb_run demoEnv [rejecting, rejecting]
        ((newCircuitBreaker ''crm'' demoBreakerConfig)\<lparr>listeners := forwardEvents\<rparr>) demoWorld)) = OPEN
   \<and> lastFailureTime (fst (cb_run demoEnv [rejecting, rejecting]
        ((newCircuitBreaker ''crm'' demoBreakerConfig)\<lparr>listeners := forwardEvents\<rparr>) demoWorld)) = 100000"
  using threshold_failures_open
          [where cfg = demoBreakerConfig and ops = "[rejecting, rejecting]" and env = demoEnv
             and eid = "''crm''" and ls = forwardEvents and w = demoWorld]
  by (simp add: demoBreakerConfig_def fails_def rejecting_def scripted_def demoEnv_def
        demoWorld_def newCircuitBreaker_def cb_execute_def cb_attempt_def onFailure_def
        dateNow_def Let_def cb_emit_def)




text \<open>
  C6. In a half-open state that an enabled breaker can reach, fewer than three successes
  are counted, and successful operations close the breaker when the count of successes in
  a row reaches three: the breaker stays half open until then, and is closed with the
  failure counter and the success counter at 0 by the success that completes the three. A
  breaker that is half open with no success counted is closed by the third success.
\<close>

theorem half_open_three_successes_close:
  assumes "cb_reachable env ((newCircuitBreaker eid cfg)\<lparr>listeners := ls\<rparr>) b"
    and "enabled cfg" and "state b = HALF_OPEN"
    and "length ops = 3" and "\<forall>op\<in>set ops. succeeds op"
  shows "0 \<le> successCount b \<and> successCount b < 3
       \<and> (\<forall>j. j < nat (3 - successCount b) \<longrightarrow>
             state (fst (cb_run env (take j ops) b w)) = HALF_OPEN)
       \<and> state (fst (cb_run env (take (nat (3 - successCount b)) ops) b w)) = CLOSED
       \<and> failures (fst (cb_run env (take (nat (3 - successCount b)) ops) b w)) = 0
       \<and> successCount (fst (cb_run env (take (nat (3 - successCount b)) ops) b w)) = 0"
proof -
  have inv: "config b = cfg" "0 \<le> successCount b" "successCount b < 3"
    using cb_reachable_inv[OF assms(1)] assms(3) by (auto simp: newCircuitBreaker_def)
  have en: "enabled (config b)" using inv assms by simp
  obtain o1 o2 o3 where ops: "ops = [o1, o2, o3]"
    using assms(4) by (auto simp: length_Suc_conv numeral_3_eq_3)
  have s: "succeeds o1" "succeeds o2" "succeeds o3" using assms(5) ops by auto
  note step = cb_run_succeeds_half_open
  consider "successCount b = 0" | "successCount b = 1" | "successCount b = 2"
    using inv by linarith
  then show ?thesis
  proof cases
    case 1
    then show ?thesis
      using inv assms(3) en s ops
      by (auto simp: step numeral_3_eq_3 less_Suc_eq simp del: cb_run.simps(2))
  next
    case 2
    then show ?thesis
      using inv assms(3) en s ops
      by (auto simp: step numeral_2_eq_2 less_Suc_eq simp del: cb_run.simps(2))
  next
    case 3
    then show ?thesis
      using inv assms(3) en s ops
      by (auto simp: step simp del: cb_run.simps(2))
  qed
qed

theorem half_open_three_successes_close_witness:
  "cb_reachable demoEnv ((newCircuitBreaker ''crm'' demoBreakerConfig)\<lparr>listeners := forwardEvents\<rparr>)
     (fst (cb_run demoEnv [rejecting, rejecting, resolving, rejecting]
        ((newCircuitBreaker ''crm'' demoBreakerConfig)\<lparr>listeners := forwardEvents\<rparr>) demoWorld))
   \<and> enabled demoBreakerConfig \<and> succeeds resolving
   \<and> state (fst (cb_run demoEnv [rejecting, rejecting, resolving, rejecting]
        ((newCircuitBreaker ''crm'' demoBreakerConfig)\<lparr>listeners := forwardEvents\<rparr>) demoWorld)) = HALF_OPEN
   \<and> successCount (fst (cb_run demoEnv [rejecting, rejecting, resolving, rejecting]
        ((newCircuitBreaker ''crm'' demoBreakerConfig)\<lparr>listeners := forwardEvents\<rparr>) demoWorld)) = 0
   \<and> state (fst (cb_run demoEnv [resolving, resolving, resolving]
        (fst (cb_run demoEnv [rejecting, rejecting, resolving, rejecting]
           ((newCircuitBreaker ''crm'' demoBreakerConfig)\<lparr>listeners := forwardEvents\<rparr>) demoWorld)) demoWorld)) = CLOSED
   \<and> failures (fst (cb_run demoEnv [resolving, resolving, resolving]
        (fst (cb_run demoEnv [rejecting, rejecting, resolving, rejecting]
           ((newCircuitBreaker ''crm'' demoBreakerConfig)\<lparr>listeners := forwardEvents\<rparr>) demoWorld)) demoWorld)) = 0
   \<and> successCount (fst (cb_run demoEnv [resolving, resolving, resolving]
        (fst (cb_run demoEnv [rejecting, rejecting, resolving, rejecting]
           ((newCircuitBreaker ''crm'' demoBreakerConfig)\<lparr>listeners := forwardEvents\<rparr>) demoWorld)) demoWorld)) = 0"
proof -
  let ?init = "(newCircuitBreaker ''crm'' demoBreakerConfig)\<lparr>listeners := forwardEvents\<rparr>"
  let ?h = "fst (cb_run demoEnv [rejecting, rejecting, resolving, rejecting] ?init demoWorld)"
  let ?ops = "[resolving, resolving, resolving]"
  note defs = demoBreakerConfig_def rejecting_def resolving_def scripted_def demoEnv_def
        demoWorld_def newCircuitBreaker_def cb_execute_def cb_attempt_def onFailure_def
        onSuccess_def dateNow_def Let_def cb_emit_def newClientBreaker_def demoEndpoint_def
  have reach: "cb_reachable demoEnv ?init ?h"
    by (rule cb_run_reachable[OF cb_reachable.initial])
  have en: "enabled demoBreakerConfig" by (simp add: demoBreakerConfig_def)
  have su: "succeeds resolving" by (simp add: succeeds_def resolving_def scripted_def)
  have sh: "state ?h = HALF_OPEN" and ch: "successCount ?h = 0"
    by (simp_all add: defs)
  have len: "length ?ops = 3" and all: "\<forall>op\<in>set ?ops. succeeds op"
    using su by simp_all
  have k: "take (nat (3 - successCount ?h)) ?ops = ?ops"
    unfolding ch by simp
  from half_open_three_successes_close[OF reach en sh len all, of demoWorld]
  show ?thesis using reach en su sh ch unfolding k by blast
qed

section \<open>Verification: retry mechanism\<close>

lemma sleeps_append: "sleeps (xs @ ys) = sleeps xs @ sleeps ys"
  by (induction xs rule: sleeps.induct) simp_all

lemma backoff_nonneg:
  assumes "0 \<le> baseDelay cfg" "0 \<le> maxDelay cfg" "0 \<le> backoffMultiplier cfg"
  shows "0 \<le> backoff cfg i"
  using assms by (simp add: backoff_def zero_le_power_int)

lemma calculateDelay_no_jitter:
  assumes "\<not> jitter cfg" "0 \<le> baseDelay cfg" "0 \<le> maxDelay cfg" "0 \<le> backoffMultiplier cfg"
  shows "calculateDelay env cfg i w = (backoff cfg i, w)"
proof -
  have "max (backoff cfg i) 0 = backoff cfg i"
    using backoff_nonneg[OF assms(2-4), of i] by (simp add: max_absorb1)
  then show ?thesis
    using assms(1) by (simp add: calculateDelay_def Let_def backoff_def)
qed

text \<open>
  The loop on an operation whose first \<open>k\<close> outcomes from now are failures that
  \<open>shouldRetry\<close> accepts, and whose next outcome, if the attempts are not used up, is
  anything else: the delays slept, the number of invocations and the result.
\<close>

lemma retry_loop_scripted:
  assumes nj: "\<not> jitter cfg"
    and nn: "0 \<le> baseDelay cfg" "0 \<le> maxDelay cfg" "0 \<le> backoffMultiplier cfg"
  shows "a + int k \<le> maxAttempts cfg
    \<Longrightarrow> \<forall>j<k. retryableFailure (f (sent w + j))
    \<Longrightarrow> a + int k = maxAttempts cfg \<or> \<not> retryableFailure (f (sent w + k))
    \<Longrightarrow> sleeps (trace (snd (retry_loop env cfg (scripted f) ctx a lastError w))) =
          sleeps (trace w) @ map (backoff cfg) [a + 1..min (a + int k) (maxAttempts cfg - 1)]
      \<and> sent (snd (retry_loop env cfg (scripted f) ctx a lastError w)) =
          sent w + k + (if a + int k < maxAttempts cfg then 1 else 0)
      \<and> fst (retry_loop env cfg (scripted f) ctx a lastError w) =
          (if a + int k < maxAttempts cfg then
             (case f (sent w + k) of
                Inr v \<Rightarrow> Inr v
              | Inl err \<Rightarrow> (case shouldRetry err of Inl te \<Rightarrow> Inl te | Inr r \<Rightarrow> Inl err))
           else Inl (if k = 0 then lastError else projl (f (sent w + k - 1))))"
proof (induction k arbitrary: a lastError w)
  case 0
  show ?case
  proof (cases "a < maxAttempts cfg")
    case False
    then show ?thesis using 0 by (subst (1 2 3) retry_loop.simps) simp
  next
    case True
    with 0 have nr: "\<not> retryableFailure (f (sent w))" by simp
    have empty: "[a + 1..min a (maxAttempts cfg - 1)] = []" by simp
    show ?thesis
      using True nr unfolding empty
      by (subst (1 2 3) retry_loop.simps)
         (auto simp: scripted_def retryableFailure_def split: sum.splits)
  qed
next
  case (Suc k)
  have lt: "a < maxAttempts cfg" using Suc.prems by simp
  from Suc.prems have "retryableFailure (f (sent w))" by auto
  then obtain err where err: "f (sent w) = Inl err" "shouldRetry err = Inr True"
    by (auto simp: retryableFailure_def split: sum.splits)
  let ?w1 = "w\<lparr>sent := Suc (sent w)\<rparr>"
  show ?case
  proof (cases "a + 1 < maxAttempts cfg")
    case True
    let ?w2 = "sleep (backoff cfg (a + 1))
                 (emit (ConsoleLog (snd ctx) (a + 1) (maxAttempts cfg) (fst ctx)
                          (backoff cfg (a + 1))) ?w1)"
    have step: "retry_loop env cfg (scripted f) ctx a lastError w =
                retry_loop env cfg (scripted f) ctx (a + 1) err ?w2"
      using lt True err
      by (subst retry_loop.simps)
         (simp add: scripted_def calculateDelay_no_jitter[OF nj nn])
    have w2: "sent ?w2 = Suc (sent w)" "sleeps (trace ?w2) = sleeps (trace w) @ [backoff cfg (a + 1)]"
      by (simp_all add: sleep_def emit_def sleeps_append)
    have p1: "(a + 1) + int k \<le> maxAttempts cfg" using Suc.prems by simp
    have p2: "\<forall>j<k. retryableFailure (f (sent ?w2 + j))"
      using Suc.prems(2) w2 by (auto dest: spec[of _ "Suc _"])
    have p3: "(a + 1) + int k = maxAttempts cfg \<or> \<not> retryableFailure (f (sent ?w2 + k))"
      using Suc.prems(3) w2 by (simp add: add.commute add.left_commute)
    have up: "[a + 1..min (a + int (Suc k)) (maxAttempts cfg - 1)] =
              (a + 1) # [a + 1 + 1..min (a + 1 + int k) (maxAttempts cfg - 1)]"
      using True by (subst upto_rec1) (simp_all add: add.commute add.left_commute)
    from Suc.IH[OF p1 p2 p3, of err]
    show ?thesis
      unfolding step up using w2 err
      by (auto simp: add.commute add.left_commute)
  next
    case False
    then have k0: "k = 0" and an: "a + 1 = maxAttempts cfg" using Suc.prems by simp_all
    have step: "retry_loop env cfg (scripted f) ctx a lastError w =
                retry_loop env cfg (scripted f) ctx (a + 1) err ?w1"
      using lt False err
      by (subst retry_loop.simps) (simp add: scripted_def)
    have fin: "retry_loop env cfg (scripted f) ctx (a + 1) err ?w1 = (Inl err, ?w1)"
      using an by (subst retry_loop.simps) simp
    show ?thesis
      unfolding step fin using k0 an err by simp
  qed
qed



text \<open>
  C2. \<open>shouldRetry\<close> looks for 401, 400, authentication and validation in the message,
  not at the class of the error. An error with the message of a 403 response is classified
  as an authentication error and retried: the operation is invoked three times, with both
  delays. An error with a 404 response is classified as a validation error and retried.
\<close>

theorem forbidden_error_is_retried:
  "classifyError (httpError ''HTTP 403: Forbidden'')
      (err_response (httpError ''HTTP 403: Forbidden'')) = authentication_error
   \<and> shouldRetry (ThrownError (httpError ''HTTP 403: Forbidden'')) = Inr True
   \<and> classifyError
        \<lparr>err_message = Some ''Request failed with status code 404'',
         err_response = Some \<lparr>status = Some 404, resp_headers = None, resp_data = None\<rparr>,
         err_code = None\<rparr>
        (Some \<lparr>status = Some 404, resp_headers = None, resp_data = None\<rparr>) = validation_error
   \<and> shouldRetry (ThrownError
        \<lparr>err_message = Some ''Request failed with status code 404'',
         err_response = Some \<lparr>status = Some 404, resp_headers = None, resp_data = None\<rparr>,
         err_code = None\<rparr>) = Inr True
   \<and> sent (snd (retry_execute demoEnv demoRetryConfig
        (scripted (\<lambda>n. Inl (ThrownError (httpError ''HTTP 403: Forbidden''))))
        (''crm'', ''req_1'') demoWorld)) = 3
   \<and> sleeps (trace (snd (retry_execute demoEnv demoRetryConfig
        (scripted (\<lambda>n. Inl (ThrownError (httpError ''HTTP 403: Forbidden''))))
        (''crm'', ''req_1'') demoWorld))) = [1000, 2000]"
proof -
  have c: "classifyError (httpError ''HTTP 403: Forbidden'')
      (err_response (httpError ''HTTP 403: Forbidden'')) = authentication_error"
    by (simp add: classifyError_def truthyStatus_def classifyMessage_def lowerMessage_def
          httpError_def toLowerCase_def toLowerChar_def)
  have s: "shouldRetry (ThrownError (httpError ''HTTP 403: Forbidden'')) = Inr True"
    by (simp add: shouldRetry_def messageOf_def httpError_def)
  have v: "classifyError
        \<lparr>err_message = Some ''Request failed with status code 404'',
         err_response = Some \<lparr>status = Some 404, resp_headers = None, resp_data = None\<rparr>,
         err_code = None\<rparr>
        (Some \<lparr>status = Some 404, resp_headers = None, resp_data = None\<rparr>) = validation_error"
    "shouldRetry (ThrownError
        \<lparr>err_message = Some ''Request failed with status code 404'',
         err_response = Some \<lparr>status = Some 404, resp_headers = None, resp_data = None\<rparr>,
         err_code = None\<rparr>) = Inr True"
    by (simp_all add: classifyError_def truthyStatus_def shouldRetry_def messageOf_def)
  have up: "[0 + 1..min (0 + int 3) (maxAttempts demoRetryConfig - 1)] = [1, 2]"
    by (simp add: demoRetryConfig_def upto_rec1)
  have cfg: "\<not> jitter demoRetryConfig" "0 \<le> baseDelay demoRetryConfig"
    "0 \<le> maxDelay demoRetryConfig" "0 \<le> backoffMultiplier demoRetryConfig"
    by (simp_all add: demoRetryConfig_def)
  from retry_loop_scripted[OF cfg, where a = 0 and k = 3 and w = demoWorld and env = demoEnv
            and ctx = "(''crm'', ''req_1'')" and lastError = ThrownUndefined
            and f = "\<lambda>n. Inl (ThrownError (httpError ''HTTP 403: Forbidden''))"]
  show ?thesis
    using c s v unfolding up retry_execute_def
    by (simp add: demoRetryConfig_def demoWorld_def retryableFailure_def backoff_def)
qed

section \<open>Verification: integration client\<close>


lemma createIntegrationError_ticks:
  "ticks w = ticks w'
   \<Longrightarrow> fst (createIntegrationError env ep e request rid n w) =
       fst (createIntegrationError env ep e request rid n w')"
  by (simp add: createIntegrationError_def dateNow_def)





























end
